theory Spec2Isabelle
  imports Main
begin

section \<open>Python values\<close>

text \<open>
  The workflow passes untyped dictionaries around: generated content, review verdicts and
  step results are all \<^verbatim>\<open>Dict[str, Any]\<close>, built from \<^verbatim>\<open>json.loads\<close> output and
  from dictionary literals. A dictionary is an association list in insertion order with
  string keys. JSON numbers are integers here; no function below inspects a number beyond
  its truth value.
\<close>

datatype pyval =
    PNone
  | PBool bool
  | PInt int
  | PStr string
  | PList "pyval list"
  | PDict "(string \<times> pyval) list"

type_synonym pydict = "(string \<times> pyval) list"

text \<open>
  Exceptions, with the text that \<^verbatim>\<open>str(e)\<close> gives: the AttributeError of a
  \<^verbatim>\<open>.get\<close> on a value that is no dictionary, and whatever a collaborator raises.
\<close>

datatype error =
    AttributeError string
  | Raised string

text \<open>Python truth value testing: \<^verbatim>\<open>if v:\<close>, \<^verbatim>\<open>not v\<close>, \<^verbatim>\<open>a and b\<close>.\<close>

fun truthy :: "pyval \<Rightarrow> bool" where
  "truthy PNone = False"
| "truthy (PBool b) = b"
| "truthy (PInt i) = (i \<noteq> 0)"
| "truthy (PStr s) = (s \<noteq> [])"
| "truthy (PList xs) = (xs \<noteq> [])"
| "truthy (PDict kvs) = (kvs \<noteq> [])"

text \<open>\<^verbatim>\<open>type(v).__name__\<close>, as it appears in the message of an AttributeError.\<close>

fun type_name :: "pyval \<Rightarrow> string" where
  "type_name PNone = ''NoneType''"
| "type_name (PBool b) = ''bool''"
| "type_name (PInt i) = ''int''"
| "type_name (PStr s) = ''str''"
| "type_name (PList xs) = ''list''"
| "type_name (PDict kvs) = ''dict''"

text \<open>\<^verbatim>\<open>k in d\<close> for a dictionary \<open>d\<close>.\<close>

definition dict_contains :: "string \<Rightarrow> pydict \<Rightarrow> bool" where
  "dict_contains k d = (map_of d k \<noteq> None)"

text \<open>\<^verbatim>\<open>d[k] = v\<close>: an existing key keeps its position, a new key goes last.\<close>

fun dict_setitem :: "string \<Rightarrow> pyval \<Rightarrow> pydict \<Rightarrow> pydict" where
  "dict_setitem k v [] = [(k, v)]"
| "dict_setitem k v ((k', v') # d) =
     (if k' = k then (k, v) # d else (k', v') # dict_setitem k v d)"

text \<open>\<^verbatim>\<open>d.setdefault(k, v)\<close>: stores \<open>v\<close> only when \<open>k\<close> is absent.\<close>

definition setdefault :: "string \<Rightarrow> pyval \<Rightarrow> pydict \<Rightarrow> pydict" where
  "setdefault k v d = (if dict_contains k d then d else dict_setitem k v d)"

text \<open>\<^verbatim>\<open>d.get(k, default)\<close> on a dictionary.\<close>

definition dict_get :: "pydict \<Rightarrow> string \<Rightarrow> pyval \<Rightarrow> pyval" where
  "dict_get d k dflt = (case map_of d k of Some v \<Rightarrow> v | None \<Rightarrow> dflt)"

text \<open>
  \<^verbatim>\<open>v.get(k, default)\<close> on any value: only a dictionary has the method, every other
  value raises AttributeError.
\<close>

definition py_get :: "pyval \<Rightarrow> string \<Rightarrow> pyval \<Rightarrow> error + pyval" where
  "py_get v k dflt =
     (case v of
        PDict d \<Rightarrow> Inr (dict_get d k dflt)
      | _ \<Rightarrow> Inl (AttributeError
               (CHR 0x27 # type_name v @ CHR 0x27 # '' object has no attribute ''
                  @ CHR 0x27 # ''get'' @ [CHR 0x27])))"

text \<open>Sequencing of calls that may raise: the first exception wins.\<close>

definition bind_err :: "error + 'a \<Rightarrow> ('a \<Rightarrow> error + 'b) \<Rightarrow> error + 'b" where
  "bind_err r f = (case r of Inl e \<Rightarrow> Inl e | Inr v \<Rightarrow> f v)"

text \<open>\<^verbatim>\<open>str(e)\<close>, as the f-strings of the exception handlers print it.\<close>

fun str_of_error :: "error \<Rightarrow> string" where
  "str_of_error (AttributeError msg) = msg"
| "str_of_error (Raised msg) = msg"

section \<open>AIService.generate\_content: parsing, defaults and merging\<close>

text \<open>
  What \<^verbatim>\<open>generate_content\<close> has in hand once the prompt is prepared and the model is
  called: either no usable reply (empty prompt messages, an exception while preparing the
  prompt, an API error, a reply that is not JSON), in which case it returns
  \<^verbatim>\<open>(None, error)\<close>, or the value of \<^verbatim>\<open>json.loads(final_content_string)\<close>.
\<close>

datatype llm_reply = NoReply | Reply pyval

text \<open>
  Lines 139-143: when one of the three keys is missing, each missing key gets its default.
\<close>

definition fill_defaults :: "pydict \<Rightarrow> pydict" where
  "fill_defaults parsed_content =
     (if \<not> (dict_contains ''post_text'' parsed_content
            \<and> dict_contains ''image_prompt'' parsed_content
            \<and> dict_contains ''hashtags'' parsed_content)
      then setdefault ''hashtags'' (PList [])
             (setdefault ''image_prompt'' PNone
               (setdefault ''post_text'' PNone parsed_content))
      else parsed_content)"

text \<open>
  Lines 145-157: the merge for partial regeneration. An approved component replaces the
  fresh one only under \<^verbatim>\<open>regenerate_component == ... and approved_...\<close>, a truth
  value test of the kept value.
\<close>

definition merge_content :: "pydict \<Rightarrow> string \<Rightarrow> pyval \<Rightarrow> pyval \<Rightarrow> pydict" where
  "merge_content parsed_content regenerate_component approved_text approved_image_prompt =
     (if regenerate_component = ''text'' \<and> truthy approved_image_prompt
        then dict_setitem ''image_prompt'' approved_image_prompt parsed_content
      else if regenerate_component = ''image_prompt'' \<and> truthy approved_text
        then dict_setitem ''post_text'' approved_text parsed_content
      else parsed_content)"

text \<open>
  The result of \<^verbatim>\<open>generate_content\<close>, its first component: the content dictionary or
  \<^verbatim>\<open>None\<close>. A reply that is not a JSON object raises ValueError inside the inner
  \<^verbatim>\<open>try\<close>, which returns \<^verbatim>\<open>(None, "Error processing final content: ...")\<close>.
\<close>

definition generate_content :: "llm_reply \<Rightarrow> string \<Rightarrow> pyval \<Rightarrow> pyval \<Rightarrow> pyval" where
  "generate_content reply regenerate_component approved_text approved_image_prompt =
     (case reply of
        NoReply \<Rightarrow> PNone
      | Reply (PDict parsed_content) \<Rightarrow>
          PDict (merge_content (fill_defaults parsed_content)
                   regenerate_component approved_text approved_image_prompt)
      | Reply _ \<Rightarrow> PNone)"

section \<open>ContentWorkflow: planning a regeneration\<close>

text \<open>
  The arguments that \<^verbatim>\<open>run\<close> hands to \<^verbatim>\<open>_run_generation_step\<close> on one attempt
  (the locals of lines 460-464).
\<close>

record regen_plan =
  regenerate_component :: string
  approved_text_for_regen :: pyval
  approved_image_prompt_for_regen :: pyval
  text_feedback_for_regen :: pyval
  image_prompt_feedback_for_regen :: pyval

text \<open>\<^verbatim>\<open>structured_fb.get(component, {}).get(key, default)\<close>.\<close>

definition component_get :: "pyval \<Rightarrow> string \<Rightarrow> string \<Rightarrow> pyval \<Rightarrow> error + pyval" where
  "component_get structured_fb component k dflt =
     bind_err (py_get structured_fb component (PDict [])) (\<lambda>verdict. py_get verdict k dflt)"

text \<open>
  Lines 460-505 of \<^verbatim>\<open>run\<close>: from the attempt number, the previous review outcome and
  the previous content to the plan of this attempt. A \<^verbatim>\<open>.get\<close> on a value that is
  no dictionary raises; the exception leaves both loops and reaches the handler of
  \<^verbatim>\<open>run\<close>.
\<close>

definition plan_regeneration :: "nat \<Rightarrow> pyval \<Rightarrow> pyval \<Rightarrow> error + regen_plan" where
  "plan_regeneration attempt previous_review previous_content =
     bind_err
       (if attempt > 0 \<and> truthy previous_review
        then bind_err (py_get previous_review ''status'' PNone)
               (\<lambda>st. Inr (st = PStr ''rejected''))
        else Inr False)
       (\<lambda>targeted.
         if targeted then
           bind_err (py_get previous_review ''feedback'' (PDict [])) (\<lambda>structured_fb.
           bind_err (component_get structured_fb ''text'' ''approved'' (PBool False)) (\<lambda>text_approved.
           bind_err (component_get structured_fb ''image_prompt'' ''approved'' (PBool False)) (\<lambda>prompt_approved.
           bind_err (component_get structured_fb ''text'' ''feedback'' PNone) (\<lambda>text_fb.
           bind_err (component_get structured_fb ''image_prompt'' ''feedback'' PNone) (\<lambda>prompt_fb.
           bind_err
             (if truthy previous_content \<and> truthy text_approved
              then py_get previous_content ''post_text'' PNone else Inr PNone) (\<lambda>kept_text.
           bind_err
             (if truthy previous_content \<and> truthy prompt_approved
              then py_get previous_content ''image_prompt'' PNone else Inr PNone) (\<lambda>kept_image_prompt.
           Inr
             (if truthy text_approved \<and> \<not> truthy prompt_approved then
                \<lparr>regenerate_component = ''image_prompt'',
                 approved_text_for_regen = kept_text,
                 approved_image_prompt_for_regen = kept_image_prompt,
                 text_feedback_for_regen = PNone,
                 image_prompt_feedback_for_regen = prompt_fb\<rparr>
              else if \<not> truthy text_approved \<and> truthy prompt_approved then
                \<lparr>regenerate_component = ''text'',
                 approved_text_for_regen = kept_text,
                 approved_image_prompt_for_regen = kept_image_prompt,
                 text_feedback_for_regen = text_fb,
                 image_prompt_feedback_for_regen = PNone\<rparr>
              else
                \<lparr>regenerate_component = ''all'',
                 approved_text_for_regen = PNone,
                 approved_image_prompt_for_regen = PNone,
                 text_feedback_for_regen = (if \<not> truthy text_approved then text_fb else PNone),
                 image_prompt_feedback_for_regen =
                   (if \<not> truthy prompt_approved then prompt_fb else PNone)\<rparr>))))))))
         else
           Inr \<lparr>regenerate_component = ''all'',
                approved_text_for_regen = PNone,
                approved_image_prompt_for_regen = PNone,
                text_feedback_for_regen = PNone,
                image_prompt_feedback_for_regen = PNone\<rparr>)"

section \<open>Collaborators and configuration\<close>

text \<open>
  An article as the news fetcher returns it: \<^verbatim>\<open>Dict[str, str]\<close> with the keys
  \<^verbatim>\<open>title\<close>, \<^verbatim>\<open>link\<close>, \<^verbatim>\<open>date\<close>, \<^verbatim>\<open>content\<close>. The fetcher returns a list of
  articles or an error message, or raises.
\<close>

type_synonym article = "(string \<times> string) list"

datatype fetch_result =
    FetchRaised error
  | FetchMessage string
  | FetchArticles "article list"

text \<open>
  The workflow's constructor arguments, the configuration it reads and the services it
  calls. A service is a function of the call's arguments; the platform name and the
  attempt number (the article index for the summarizer) identify the call, since a model
  or a human may answer the same question differently each time. A platform fixes its
  prompt file and language (\<^verbatim>\<open>platform_configs\<close>), so these are not passed separately.
  \<^item> \<open>review_model\<close>: the part of \<^verbatim>\<open>AIService.review_content\<close> after its check
    for empty content (platform, call, content type, content);
  \<^item> \<open>request_review\<close>: the human reviewer (platform, call, content type, content,
    AI feedback);
  \<^item> \<open>generation_model\<close>: loading the prompt and calling the model, up to
    \<^verbatim>\<open>json.loads\<close>;
  \<^item> \<open>generate_image\<close>: the image URL or \<^verbatim>\<open>None\<close> (platform, prompt, size);
  \<^item> \<open>save_content\<close>: \<^verbatim>\<open>storage.save_content\<close> (platform, content, image URL).
    The call raises, or it returns; Python gets \<^verbatim>\<open>None\<close> back either way, and the
    Boolean says what the call did to the store: whether the content was written;
  \<^item> \<open>append_used_article_links\<close>: \<^verbatim>\<open>storage.append_used_article_links\<close>, which
    returns or raises. \<^verbatim>\<open>run\<close> calls it in two places, at the end of its \<^verbatim>\<open>try\<close>
    block (place 0) and in its exception handler (place 1).
\<close>

record env =
  max_regen_attempts :: int
  human_review_required_news :: bool
  human_review_required_post :: bool
  AI_REVIEW_ENABLED_NEWS :: bool
  AI_REVIEW_ENABLED_POST_TEXT :: bool
  AI_REVIEW_ENABLED_IMAGE_PROMPT :: bool
  ARTICLE_SUMMARIZATION_THRESHOLD :: int
  load_used_article_links :: "string set"
  news_fetcher_func :: "string set \<Rightarrow> fetch_result"
  summarize_article_text :: "nat \<Rightarrow> string \<Rightarrow> error + string"
  review_model :: "string option \<Rightarrow> nat \<Rightarrow> string \<Rightarrow> pyval \<Rightarrow> error + pyval"
  request_review :: "string option \<Rightarrow> nat \<Rightarrow> string \<Rightarrow> pyval \<Rightarrow> pyval \<Rightarrow> error + pyval"
  generation_model :: "string \<Rightarrow> nat \<Rightarrow> regen_plan \<Rightarrow> llm_reply"
  generate_image :: "string \<Rightarrow> pyval \<Rightarrow> string \<Rightarrow> error + pyval"
  save_content :: "string \<Rightarrow> pyval \<Rightarrow> pyval \<Rightarrow> error + bool"
  append_used_article_links :: "nat \<Rightarrow> pyval \<Rightarrow> error option"

text \<open>\<^verbatim>\<open>AIService.review_content\<close>: empty content is rejected without a model call.\<close>

definition review_content ::
  "env \<Rightarrow> string option \<Rightarrow> nat \<Rightarrow> pyval \<Rightarrow> string \<Rightarrow> error + pyval" where
  "review_content env platform call content_to_review content_type =
     (if \<not> truthy content_to_review
      then Inr (PDict [(''approved'', PBool False),
                       (''feedback'', PStr ''AI feedback: Content to review was empty.'')])
      else review_model env platform call content_type content_to_review)"

section \<open>ContentWorkflow.\_run\_review\_step\<close>

text \<open>The verdict of a component whose AI review is switched off.\<close>

definition skipped_review :: pyval where
  "skipped_review =
     PDict [(''approved'', PBool True), (''feedback'', PStr ''AI review skipped by config.'')]"

text \<open>
  One AI sub-review (lines 331-341 for the text, 344-354 for the image prompt): the
  component's verdict and whether it leaves \<^verbatim>\<open>ai_approved_all_components\<close> standing.
\<close>

definition ai_component_review ::
  "env \<Rightarrow> bool \<Rightarrow> string \<Rightarrow> nat \<Rightarrow> pyval \<Rightarrow> string \<Rightarrow> error + (pyval \<times> bool)" where
  "ai_component_review env enabled platform_name attempt to_review content_type =
     (if enabled then
        bind_err (review_content env (Some platform_name) attempt to_review content_type)
          (\<lambda>component_review.
             bind_err (py_get component_review ''approved'' (PBool False))
               (\<lambda>a. Inr (component_review, truthy a)))
      else Inr (skipped_review, True))"

text \<open>
  Lines 319-357: both sub-reviews; the result is \<^verbatim>\<open>component_reviews\<close> and
  \<^verbatim>\<open>ai_approved_all_components\<close>.
\<close>

definition ai_review_components ::
  "env \<Rightarrow> pyval \<Rightarrow> string \<Rightarrow> nat \<Rightarrow> error + (pyval \<times> bool)" where
  "ai_review_components env platform_content platform_name attempt =
     bind_err (py_get platform_content ''post_text'' (PStr [])) (\<lambda>post_text_to_review.
     bind_err (py_get platform_content ''image_prompt'' (PStr [])) (\<lambda>image_prompt_to_review.
     bind_err (ai_component_review env (AI_REVIEW_ENABLED_POST_TEXT env) platform_name attempt
                 post_text_to_review ''post_text'') (\<lambda>(text_review, text_ok).
     bind_err (ai_component_review env (AI_REVIEW_ENABLED_IMAGE_PROMPT env) platform_name attempt
                 image_prompt_to_review ''image_prompt'') (\<lambda>(prompt_review, prompt_ok).
     Inr (PDict [(''text'', text_review), (''image_prompt'', prompt_review)],
          text_ok \<and> prompt_ok)))))"

text \<open>
  Lines 370-376: the step result built from the human reviewer's answer. The default
  verdict of a component the answer does not mention is
  \<^verbatim>\<open>{'approved': step_result['status'] == 'approved', 'feedback': 'N/A'}\<close>.
\<close>

definition human_verdict :: "pyval \<Rightarrow> error + pyval" where
  "human_verdict human_review =
     bind_err (py_get human_review ''approved'' (PBool False)) (\<lambda>human_approved.
     bind_err (py_get human_review ''feedback'' (PDict [])) (\<lambda>human_feedback.
       let step_status = (if truthy human_approved then ''approved'' else ''rejected'');
           dflt = PDict [(''approved'', PBool (step_status = ''approved'')),
                         (''feedback'', PStr ''N/A'')]
       in bind_err (py_get human_feedback ''text'' dflt) (\<lambda>text_verdict.
          bind_err (py_get human_feedback ''image_prompt'' dflt) (\<lambda>prompt_verdict.
          Inr (PDict [(''status'', PStr step_status),
                      (''feedback'', PDict [(''text'', text_verdict),
                                            (''image_prompt'', prompt_verdict)])])))))"

text \<open>The body of the \<^verbatim>\<open>try\<close> of \<^verbatim>\<open>_run_review_step\<close> (lines 318-389).\<close>

definition review_try :: "env \<Rightarrow> pyval \<Rightarrow> string \<Rightarrow> nat \<Rightarrow> error + pyval" where
  "review_try env platform_content platform_name attempt =
     bind_err (ai_review_components env platform_content platform_name attempt)
       (\<lambda>(component_reviews, ai_approved_all_components).
          if \<not> ai_approved_all_components \<or> human_review_required_post env then
            bind_err (request_review env (Some platform_name) attempt ''full_post''
                        platform_content component_reviews)
              human_verdict
          else
            Inr (PDict [(''status'', PStr ''approved''), (''feedback'', component_reviews)]))"

text \<open>
  \<^verbatim>\<open>_run_review_step\<close>: it never raises; an exception in the \<^verbatim>\<open>try\<close> becomes a
  rejected result with an \<^verbatim>\<open>error\<close> entry as feedback.
\<close>

definition run_review_step :: "env \<Rightarrow> pyval \<Rightarrow> string \<Rightarrow> nat \<Rightarrow> pyval" where
  "run_review_step env platform_content platform_name attempt =
     (if \<not> truthy platform_content then
        PDict [(''status'', PStr ''rejected''),
               (''feedback'', PDict [(''error'', PStr ''No content provided for review.'')])]
      else
        (case review_try env platform_content platform_name attempt of
           Inr step_result \<Rightarrow> step_result
         | Inl e \<Rightarrow>
             PDict [(''status'', PStr ''rejected''),
                    (''feedback'',
                       PDict [(''error'',
                               PStr (''Critical error in review step: '' @ str_of_error e))])]))"

section \<open>ContentWorkflow.\_run\_generation\_step\<close>

text \<open>
  \<^verbatim>\<open>_run_generation_step\<close> returns \<^verbatim>\<open>None\<close> when the prompt cannot be loaded or
  \<^verbatim>\<open>generate_content\<close> reports an error, and the generated content otherwise.
\<close>

definition run_generation_step :: "env \<Rightarrow> string \<Rightarrow> nat \<Rightarrow> regen_plan \<Rightarrow> pyval" where
  "run_generation_step env platform_name attempt pl =
     generate_content (generation_model env platform_name attempt pl)
       (regenerate_component pl) (approved_text_for_regen pl)
       (approved_image_prompt_for_regen pl)"

section \<open>ContentWorkflow.run: the platform pipeline\<close>

text \<open>
  An entry of \<^verbatim>\<open>platform_states\<close>:
  \<^verbatim>\<open>{"content": None, "review_outcome": None, "attempts": 0}\<close>.
\<close>

record platform_state =
  content :: pyval
  review_outcome :: pyval
  attempts :: nat

text \<open>
  What a run does that is visible from outside, in order: the assignments to
  \<^verbatim>\<open>platform_state["attempts"]\<close> and the calls of the generation step, of the review
  step, of the image generator, of \<^verbatim>\<open>storage.save_content\<close> and of
  \<^verbatim>\<open>storage.append_used_article_links\<close>, the last two with the outcome of the call.
\<close>

datatype event =
    EvAttempt string nat
  | EvGenerate string nat regen_plan
  | EvReview string nat pyval
  | EvImage string pyval
  | EvSave string pyval pyval "error + bool"
  | EvAppend pyval "error option"

text \<open>
  The locals of \<^verbatim>\<open>run\<close>. The two dictionaries have the configured platforms as their
  fixed key set and are functions of the platform name.
\<close>

record run_state =
  links_from_approved_news :: pyval
  final_approved_content :: "string \<Rightarrow> pyval"
  any_post_saved :: bool
  platform_states :: "string \<Rightarrow> platform_state"
  events :: "event list"

definition emit :: "event \<Rightarrow> run_state \<Rightarrow> run_state" where
  "emit ev s = s\<lparr>events := events s @ [ev]\<rparr>"

definition update_platform ::
  "string \<Rightarrow> (platform_state \<Rightarrow> platform_state) \<Rightarrow> run_state \<Rightarrow> run_state" where
  "update_platform platform f s =
     s\<lparr>platform_states := (platform_states s)(platform := f (platform_states s platform))\<rparr>"

definition set_final :: "string \<Rightarrow> pyval \<Rightarrow> run_state \<Rightarrow> run_state" where
  "set_final platform c s =
     s\<lparr>final_approved_content := (final_approved_content s)(platform := c)\<rparr>"

text \<open>The verdict recorded when the generation step returns no content (line 523).\<close>

definition generation_failed :: pyval where
  "generation_failed =
     PDict [(''status'', PStr ''rejected''),
            (''feedback'', PDict [(''error'', PStr ''Generation failed'')])]"

text \<open>How one pass through the body of the attempt loop ends.\<close>

datatype flow = Continue | Break | Raise error

text \<open>The body of \<^verbatim>\<open>for attempt in range(self.max_regen_attempts + 1)\<close>, lines 457-548.\<close>

definition attempt_body :: "env \<Rightarrow> string \<Rightarrow> nat \<Rightarrow> run_state \<Rightarrow> flow \<times> run_state" where
  "attempt_body env platform attempt s =
     (let s1 = emit (EvAttempt platform (attempt + 1))
                 (update_platform platform (\<lambda>ps. ps\<lparr>attempts := attempt + 1\<rparr>) s);
          previous_review = review_outcome (platform_states s1 platform);
          previous_content = content (platform_states s1 platform)
      in case plan_regeneration attempt previous_review previous_content of
           Inl e \<Rightarrow> (Raise e, s1)
         | Inr pl \<Rightarrow>
            (let current_content = run_generation_step env platform attempt pl;
                 s2 = update_platform platform (\<lambda>ps. ps\<lparr>content := current_content\<rparr>)
                        (emit (EvGenerate platform attempt pl) s1)
             in if \<not> truthy current_content then
                  (let s3 = update_platform platform
                              (\<lambda>ps. ps\<lparr>review_outcome := generation_failed\<rparr>) s2
                   in if int attempt \<ge> max_regen_attempts env then (Break, s3)
                      else (Continue, s3))
                else
                  (let outcome = run_review_step env current_content platform attempt;
                       s3 = update_platform platform (\<lambda>ps. ps\<lparr>review_outcome := outcome\<rparr>)
                              (emit (EvReview platform attempt current_content) s2)
                   in case py_get outcome ''status'' PNone of
                        Inl e \<Rightarrow> (Raise e, s3)
                      | Inr st \<Rightarrow>
                          if st = PStr ''approved'' then
                            (Break, set_final platform current_content s3)
                          else if int attempt \<ge> max_regen_attempts env then
                            (Break, set_final platform PNone s3)
                          else (Continue, s3))))"

text \<open>
  The attempt loop over the values of \<^verbatim>\<open>range(...)\<close>. The first component of the
  result is the exception that left the loop, if any.
\<close>

fun attempt_loop :: "env \<Rightarrow> string \<Rightarrow> nat list \<Rightarrow> run_state \<Rightarrow> error option \<times> run_state" where
  "attempt_loop env platform [] s = (None, s)"
| "attempt_loop env platform (attempt # rest) s =
     (case attempt_body env platform attempt s of
        (Continue, s') \<Rightarrow> attempt_loop env platform rest s'
      | (Break, s') \<Rightarrow> (None, s')
      | (Raise e, s') \<Rightarrow> (Some e, s'))"

text \<open>\<^verbatim>\<open>range(self.max_regen_attempts + 1)\<close>: empty when the bound is negative.\<close>

definition attempt_range :: "env \<Rightarrow> nat list" where
  "attempt_range env = [0 ..< nat (max_regen_attempts env + 1)]"

text \<open>Lines 563-567: the image size for a platform.\<close>

definition img_size :: "string \<Rightarrow> string" where
  "img_size platform =
     (if platform = ''Instagram'' then ''1024x1792''
      else if platform = ''Rednote'' then ''1024x1792''
      else ''1024x1024'')"

text \<open>
  Lines 551-587: image and persistence for a platform whose content was approved. An
  exception of the image generator is not caught here; one of \<^verbatim>\<open>save_content\<close> is,
  and demotes the platform. \<^verbatim>\<open>any_post_saved\<close> is set when \<^verbatim>\<open>save_content\<close>
  returns, whatever it did.
\<close>

definition save_approved :: "env \<Rightarrow> string \<Rightarrow> run_state \<Rightarrow> error option \<times> run_state" where
  "save_approved env platform s =
     (let approved_content_dict = final_approved_content s platform in
      if truthy approved_content_dict then
        (case py_get approved_content_dict ''image_prompt'' PNone of
           Inl e \<Rightarrow> (Some e, s)
         | Inr image_prompt \<Rightarrow>
            (case (if truthy image_prompt
                   then (case generate_image env platform image_prompt (img_size platform) of
                           Inl e \<Rightarrow> Inl (e, emit (EvImage platform image_prompt) s)
                         | Inr image_url \<Rightarrow> Inr (image_url, emit (EvImage platform image_prompt) s))
                   else Inr (PNone, s)) of
               Inl (e, s1) \<Rightarrow> (Some e, s1)
             | Inr (image_url, s1) \<Rightarrow>
                (case save_content env platform approved_content_dict image_url of
                   Inr written \<Rightarrow>
                     (None, (emit (EvSave platform approved_content_dict image_url (Inr written)) s1)
                              \<lparr>any_post_saved := True\<rparr>)
                 | Inl e \<Rightarrow>
                     (None, set_final platform PNone
                              (emit (EvSave platform approved_content_dict image_url (Inl e)) s1)))))
      else (None, s))"

text \<open>
  The platform loop (line 449): the attempt loop, then the save, for each platform in
  turn. An exception ends it.
\<close>

fun platform_loop :: "env \<Rightarrow> string list \<Rightarrow> run_state \<Rightarrow> error option \<times> run_state" where
  "platform_loop env [] s = (None, s)"
| "platform_loop env (platform # rest) s =
     (case attempt_loop env platform (attempt_range env) s of
        (Some e, s1) \<Rightarrow> (Some e, s1)
      | (None, s1) \<Rightarrow>
         (case save_approved env platform s1 of
            (Some e, s2) \<Rightarrow> (Some e, s2)
          | (None, s2) \<Rightarrow> platform_loop env rest s2))"

section \<open>ContentWorkflow.\_run\_news\_step\<close>

text \<open>
  The dictionary \<^verbatim>\<open>step_result\<close> of the news step. Its entry \<^verbatim>\<open>fetched_articles\<close>
  first holds the fetched article dictionaries and, on approval, the links of the articles
  used in the summary; \<^verbatim>\<open>run\<close> reads it as the links to mark as used.
\<close>

record news_result =
  status :: string
  news_summary :: pyval
  fetched_articles :: pyval
  feedback :: pyval

definition article_value :: "article \<Rightarrow> pyval" where
  "article_value a = PDict (map (\<lambda>(k, v). (k, PStr v)) a)"

text \<open>\<^verbatim>\<open>s.startswith(p)\<close>.\<close>

definition startswith :: "string \<Rightarrow> string \<Rightarrow> bool" where
  "startswith p s = (take (length p) s = p)"

text \<open>\<^verbatim>\<open>str(n)\<close> for a natural number, as an f-string prints it.\<close>

fun str_nat :: "nat \<Rightarrow> string" where
  "str_nat n =
     (if n < 10 then [char_of (48 + n)]
      else str_nat (n div 10) @ [char_of (48 + n mod 10)])"

definition newline :: string where
  "newline = [CHR 0x0A]"

text \<open>
  The body of the article loop (lines 105-135), on the loop's variables
  \<^verbatim>\<open>combined_news_content\<close>, \<^verbatim>\<open>processed_articles_count\<close> and
  \<^verbatim>\<open>links_to_add_to_used\<close>. A failed or refused summary leaves the original content.
\<close>

definition process_article ::
  "env \<Rightarrow> nat \<Rightarrow> article \<Rightarrow> string \<times> nat \<times> string list \<Rightarrow> string \<times> nat \<times> string list" where
  "process_article env i a acc =
     (case acc of (combined_news_content, processed_articles_count, links_to_add_to_used) \<Rightarrow>
       (let body = (case map_of a ''content'' of Some c \<Rightarrow> c | None \<Rightarrow> []);
            link = map_of a ''link''
        in if body = [] \<or> startswith ''['' body then acc
           else
             (let summarized_content =
                    (if int (length body) > ARTICLE_SUMMARIZATION_THRESHOLD env then
                       (case summarize_article_text env i body of
                          Inr summary \<Rightarrow>
                            if summary \<noteq> [] \<and> \<not> startswith ''[Error'' summary
                               \<and> \<not> startswith ''[Unexpected'' summary
                            then summary else body
                        | Inl e \<Rightarrow> body)
                     else body);
                  separated =
                    (if combined_news_content \<noteq> []
                     then combined_news_content @ newline @ newline
                            @ ''--- ARTICLE SEPARATOR ---'' @ newline @ newline
                     else combined_news_content);
                  title = (case map_of a ''title'' of Some t \<Rightarrow> t | None \<Rightarrow> ''No Title'');
                  source = (case link of
                              Some l \<Rightarrow> if l \<noteq> [] then l else ''No Link''
                            | None \<Rightarrow> ''No Link'')
              in (separated @ ''ARTICLE '' @ str_nat (processed_articles_count + 1) @ '': ''
                    @ title @ newline @ ''SOURCE: '' @ source @ newline @ newline
                    @ summarized_content,
                  processed_articles_count + 1,
                  (case link of
                     Some l \<Rightarrow> if l \<noteq> [] \<and> l \<noteq> ''#'' then links_to_add_to_used @ [l]
                               else links_to_add_to_used
                   | None \<Rightarrow> links_to_add_to_used)))))"

fun process_articles ::
  "env \<Rightarrow> nat \<Rightarrow> article list \<Rightarrow> string \<times> nat \<times> string list \<Rightarrow> string \<times> nat \<times> string list" where
  "process_articles env i [] acc = acc"
| "process_articles env i (a # rest) acc =
     process_articles env (Suc i) rest (process_article env i a acc)"

text \<open>
  Lines 150-162: the AI review of the combined news, or its default when the review is
  switched off; the result is \<^verbatim>\<open>ai_review\<close> and \<^verbatim>\<open>ai_approved\<close>.
\<close>

definition news_ai_review :: "env \<Rightarrow> string \<Rightarrow> error + (pyval \<times> pyval)" where
  "news_ai_review env combined_news_content =
     (if AI_REVIEW_ENABLED_NEWS env then
        bind_err (review_content env None 0 (PStr combined_news_content) ''news_summary'')
          (\<lambda>ai_review.
             bind_err (py_get ai_review ''approved'' (PBool False))
               (\<lambda>ai_approved. Inr (ai_review, ai_approved)))
      else Inr (PDict [(''approved'', PBool True),
                       (''feedback'', PStr ''AI review skipped by config.'')],
                PBool True))"

text \<open>
  The body of the \<^verbatim>\<open>try\<close> of \<^verbatim>\<open>_run_news_step\<close> (lines 77-194). A raised
  exception comes with \<^verbatim>\<open>step_result\<close> as it stands at that moment, for the handler.
\<close>

definition news_try :: "env \<Rightarrow> string set \<Rightarrow> (error \<times> news_result) + news_result" where
  "news_try env used_links =
     (let r0 = \<lparr>status = ''rejected'', news_summary = PNone, fetched_articles = PList [],
                feedback = PStr ''Unknown error''\<rparr>
      in case news_fetcher_func env used_links of
           FetchRaised e \<Rightarrow> Inl (e, r0)
         | FetchMessage msg \<Rightarrow> Inr (r0\<lparr>feedback := PStr (''News fetching failed: '' @ msg)\<rparr>)
         | FetchArticles fetched_data \<Rightarrow>
            if fetched_data = [] then
              Inr (r0\<lparr>feedback :=
                         PStr ''News fetching succeeded, but no *new* relevant articles were found.'',
                       status := ''no_news''\<rparr>)
            else
              (let r1 = r0\<lparr>fetched_articles := PList (map article_value fetched_data)\<rparr> in
               case process_articles env 0 fetched_data ([], 0, []) of
                 (combined_news_content, processed_articles_count, links_to_add_to_used) \<Rightarrow>
                   if combined_news_content = [] then
                     Inr (r1\<lparr>feedback :=
                                PStr ''All fetched articles were skipped due to missing/invalid content.'',
                              status := ''rejected''\<rparr>)
                   else
                     (let r2 = r1\<lparr>news_summary := PStr combined_news_content\<rparr> in
                      case news_ai_review env combined_news_content of
                        Inl e \<Rightarrow> Inl (e, r2)
                      | Inr (ai_review, ai_approved) \<Rightarrow>
                         (let r3 = r2\<lparr>feedback := ai_review\<rparr> in
                          if \<not> truthy ai_approved \<or> human_review_required_news env then
                            (case request_review env None 0 ''news_summary''
                                    (PStr combined_news_content) ai_review of
                               Inl e \<Rightarrow> Inl (e, r3)
                             | Inr human_review \<Rightarrow>
                                (case py_get human_review ''feedback''
                                        (PDict [(''error'',
                                                 PStr ''Human review failed to return feedback.'')]) of
                                   Inl e \<Rightarrow> Inl (e, r3)
                                 | Inr human_feedback \<Rightarrow>
                                    (let r4 = r3\<lparr>feedback := human_feedback\<rparr> in
                                     case py_get human_review ''approved'' (PBool False) of
                                       Inl e \<Rightarrow> Inl (e, r4)
                                     | Inr human_approved \<Rightarrow>
                                        if \<not> truthy human_approved then
                                          Inr (r4\<lparr>status := ''rejected'',
                                                   fetched_articles := PList []\<rparr>)
                                        else
                                          Inr (r4\<lparr>status := ''approved'',
                                                   fetched_articles :=
                                                     PList (map PStr links_to_add_to_used)\<rparr>))))
                          else
                            Inr (r3\<lparr>status := ''approved'',
                                     fetched_articles := PList (map PStr links_to_add_to_used)\<rparr>)))))"

text \<open>\<^verbatim>\<open>_run_news_step\<close>, with the handler of lines 196-201.\<close>

definition run_news_step :: "env \<Rightarrow> string set \<Rightarrow> news_result" where
  "run_news_step env used_links =
     (case news_try env used_links of
        Inr step_result \<Rightarrow> step_result
      | Inl (e, step_result) \<Rightarrow>
          step_result\<lparr>feedback := PStr (''Critical error in news step: '' @ str_of_error e),
                      fetched_articles := PList []\<rparr>)"

section \<open>ContentWorkflow.run\<close>

definition initial_platform_state :: platform_state where
  "initial_platform_state = \<lparr>content = PNone, review_outcome = PNone, attempts = 0\<rparr>"

definition initial_run_state :: run_state where
  "initial_run_state =
     \<lparr>links_from_approved_news = PList [],
      final_approved_content = (\<lambda>platform. PNone),
      any_post_saved = False,
      platform_states = (\<lambda>platform. initial_platform_state),
      events = []\<rparr>"

text \<open>The keys of \<^verbatim>\<open>platform_configs\<close>, in order.\<close>

definition platforms :: "string list" where
  "platforms = [''Instagram'', ''Rednote'']"

text \<open>
  Lines 597-603 (place 0) and 623-628 (place 1): the used links are appended when there
  are any and \<^verbatim>\<open>any_post_saved\<close> is set. The first component of the result is the
  exception of the call, if it raised.
\<close>

definition save_used_links :: "env \<Rightarrow> nat \<Rightarrow> run_state \<Rightarrow> error option \<times> run_state" where
  "save_used_links env place s =
     (if truthy (links_from_approved_news s) \<and> any_post_saved s
      then (let outcome = append_used_article_links env place (links_from_approved_news s)
            in (outcome, emit (EvAppend (links_from_approved_news s) outcome) s))
      else (None, s))"

text \<open>
  The \<^verbatim>\<open>try\<close> block of \<^verbatim>\<open>run\<close> (lines 414-616): the news step, which ends the run
  unless the news is approved, the platform loop, and the final saving of used links. An
  exception of the platform loop or of that final call leaves the block.
\<close>

definition run_try :: "env \<Rightarrow> error option \<times> run_state" where
  "run_try env =
     (let used_links_history = load_used_article_links env;
          news = run_news_step env used_links_history
      in if status news = ''rejected'' then (None, initial_run_state)
         else if status news = ''no_news'' then (None, initial_run_state)
         else
           (case platform_loop env platforms
                   (initial_run_state\<lparr>links_from_approved_news := fetched_articles news\<rparr>) of
              (Some e, s) \<Rightarrow> (Some e, s)
            | (None, s) \<Rightarrow> save_used_links env 0 s))"

text \<open>
  \<^verbatim>\<open>run\<close>: when an exception ended the \<^verbatim>\<open>try\<close> block, the handler of lines
  619-629 calls \<^verbatim>\<open>append_used_article_links\<close> under the same condition, inside a
  \<^verbatim>\<open>try\<close> of its own that swallows an exception of the call.
\<close>

definition run :: "env \<Rightarrow> run_state" where
  "run env =
     (case run_try env of
        (None, s) \<Rightarrow> s
      | (Some e, s) \<Rightarrow> snd (save_used_links env 1 s))"

section \<open>FileStorage\<close>

text \<open>
  The storage that \<^verbatim>\<open>main.py\<close> gives the workflow. What the file system does is a
  parameter:
  \<^item> \<open>download_image\<close>: the image block of \<^verbatim>\<open>save_content\<close> (storage.py 38-72), for a
    platform and an image URL. It ends with the name of the saved image file, or with
    nothing saved after a download failure that the block logs, or it raises (its
    last handler reads \<^verbatim>\<open>image_filepath\<close>, which is unbound when the URL could not be
    parsed);
  \<^item> \<open>write_json\<close>: whether opening the JSON file and \<^verbatim>\<open>json.dump\<close> succeed
    (storage.py 76-77), for a platform and the data to save.
\<close>

record file_system =
  download_image :: "string \<Rightarrow> pyval \<Rightarrow> error + string option"
  write_json :: "string \<Rightarrow> pyval \<Rightarrow> bool"

text \<open>The AttributeError of \<^verbatim>\<open>v.name\<close> for a value without that attribute.\<close>

definition no_attribute :: "pyval \<Rightarrow> string \<Rightarrow> error" where
  "no_attribute v name =
     AttributeError
       (CHR 0x27 # type_name v @ CHR 0x27 # '' object has no attribute ''
          @ CHR 0x27 # name @ [CHR 0x27])"

text \<open>
  \<^verbatim>\<open>FileStorage.save_content\<close>. Empty content is skipped. A failure to write the JSON
  file is caught and logged (storage.py 80-81): the method returns all the same, as it
  does after a successful write. The result says whether the file was written. Content
  is a dictionary whenever \<^verbatim>\<open>run\<close> calls the method; \<^verbatim>\<open>content.copy()\<close> also works
  on a list, and raises on the other values.
\<close>

definition file_storage_save :: "file_system \<Rightarrow> string \<Rightarrow> pyval \<Rightarrow> pyval \<Rightarrow> error + bool" where
  "file_storage_save fs platform_name c image_url =
     (if \<not> truthy c then Inr False
      else
        (case c of
           PDict d \<Rightarrow>
             bind_err
               (if truthy image_url then
                  bind_err (download_image fs platform_name image_url) (\<lambda>saved.
                    let with_url =
                          dict_setitem ''original_image_url'' image_url
                            (dict_setitem ''image_prompt_used''
                               (dict_get d ''image_prompt'' PNone) d)
                    in Inr (case saved of
                              Some image_filename \<Rightarrow>
                                dict_setitem ''saved_image_path'' (PStr image_filename) with_url
                            | None \<Rightarrow> with_url))
                else Inr d)
               (\<lambda>save_data. Inr (write_json fs platform_name (PDict save_data)))
         | PList xs \<Rightarrow>
             if truthy image_url then Inl (no_attribute c ''get'')
             else Inr (write_json fs platform_name c)
         | _ \<Rightarrow> Inl (no_attribute c ''copy'')))"

text \<open>
  \<^verbatim>\<open>FileStorage.append_used_article_links\<close>. Nothing is done for no links; otherwise
  the file is opened and written inside a \<^verbatim>\<open>try\<close> that catches every exception
  (storage.py 116-126). Only the \<^verbatim>\<open>len(new_links)\<close> of the message before it can raise,
  on a number.
\<close>

definition file_storage_append :: "pyval \<Rightarrow> error option" where
  "file_storage_append new_links =
     (if \<not> truthy new_links then None
      else
        (case new_links of
           PInt i \<Rightarrow> Some (Raised (''object of type '' @ CHR 0x27 # ''int'' @ CHR 0x27 # '' has no len()''))
         | PBool b \<Rightarrow> Some (Raised (''object of type '' @ CHR 0x27 # ''bool'' @ CHR 0x27 # '' has no len()''))
         | _ \<Rightarrow> None))"

section \<open>Scenarios\<close>

text \<open>
  A run with the settings of \<^verbatim>\<open>config.py\<close> (one regeneration attempt, AI reviews on,
  human review required for posts only). The fetcher finds one article, the model always
  answers with the same complete post, the AI reviewer approves everything, and the human
  reviewer rejects the image prompt of each platform's first attempt as too generic and
  approves the second attempt. Images are generated, and the storage is the file storage
  on a file system where every download and every write succeeds.
\<close>

definition sample_article :: article where
  "sample_article =
     [(''title'', ''Shops go online''), (''link'', ''https://news.example/a''),
      (''date'', ''Mon, 01 Jan 2024''), (''content'', ''Small shops are moving online.'')]"

definition sample_post :: pydict where
  "sample_post =
     [(''post_text'', PStr ''Sell more online''), (''image_prompt'', PStr ''A market stall''),
      (''hashtags'', PList [PStr ''#shop''])]"

definition component_verdict :: "bool \<Rightarrow> string \<Rightarrow> pyval" where
  "component_verdict ok fb = PDict [(''approved'', PBool ok), (''feedback'', PStr fb)]"

text \<open>What \<^verbatim>\<open>ConsoleReviewer.request_review\<close> returns for the given answers.\<close>

definition console_answer :: "bool \<Rightarrow> string \<Rightarrow> bool \<Rightarrow> string \<Rightarrow> pyval" where
  "console_answer text_ok text_fb prompt_ok prompt_fb =
     PDict [(''approved'', PBool (text_ok \<and> prompt_ok)),
            (''feedback'', PDict [(''text'', component_verdict text_ok text_fb),
                                  (''image_prompt'', component_verdict prompt_ok prompt_fb)])]"

definition working_files :: file_system where
  "working_files =
     \<lparr>download_image = (\<lambda>platform_name image_url. Inr (Some (platform_name @ ''_post.png''))),
      write_json = (\<lambda>platform_name save_data. True)\<rparr>"

definition scenario_env :: env where
  "scenario_env =
     \<lparr>max_regen_attempts = 1,
      human_review_required_news = False,
      human_review_required_post = True,
      AI_REVIEW_ENABLED_NEWS = True,
      AI_REVIEW_ENABLED_POST_TEXT = True,
      AI_REVIEW_ENABLED_IMAGE_PROMPT = True,
      ARTICLE_SUMMARIZATION_THRESHOLD = 1500,
      load_used_article_links = {},
      news_fetcher_func = (\<lambda>used_links. FetchArticles [sample_article]),
      summarize_article_text = (\<lambda>i body. Inr (''[LLM Summary]: '' @ body)),
      review_model = (\<lambda>platform call content_type c. Inr (component_verdict True ''Meets criteria.'')),
      request_review = (\<lambda>platform call content_type c ai_feedback.
         if call = 0
         then Inr (console_answer True ''Human approved.'' False ''too generic'')
         else Inr (console_answer True ''Human approved.'' True ''Human approved.'')),
      generation_model = (\<lambda>platform attempt pl. Reply (PDict sample_post)),
      generate_image = (\<lambda>platform prompt size. Inr (PStr ''https://img.example/1.png'')),
      save_content = file_storage_save working_files,
      append_used_article_links = (\<lambda>place. file_storage_append)\<rparr>"

text \<open>The same run, but the first generation call of each platform returns nothing.\<close>

definition failing_generation_env :: env where
  "failing_generation_env =
     scenario_env\<lparr>generation_model :=
       (\<lambda>platform attempt pl. if attempt = 0 then NoReply else Reply (PDict sample_post))\<rparr>"

text \<open>
  The same run, but with a reviewer that rejects the post and reports on the text only.
\<close>

definition partial_reviewer_env :: env where
  "partial_reviewer_env =
     scenario_env\<lparr>request_review :=
       (\<lambda>platform call content_type c ai_feedback.
          Inr (PDict [(''approved'', PBool False),
                      (''feedback'', PDict [(''text'', component_verdict False ''Too long'')])]))\<rparr>"

text \<open>
  The same run, but the fetcher could not read the article and fell back to its RSS
  summary, which it marks with a bracketed prefix.
\<close>

definition rss_article :: article where
  "rss_article =
     [(''title'', ''Shops go online''), (''link'', ''https://news.example/a''),
      (''date'', ''Mon, 01 Jan 2024''),
      (''content'', ''[Using RSS Summary]: Small shops are moving online.'')]"

definition rss_only_env :: env where
  "rss_only_env = scenario_env\<lparr>news_fetcher_func := (\<lambda>used_links. FetchArticles [rss_article])\<rparr>"

text \<open>
  The same run, but the output directory cannot be written: every attempt of the file
  storage to write a post fails.
\<close>

definition unwritable_env :: env where
  "unwritable_env =
     scenario_env\<lparr>save_content :=
       file_storage_save (working_files\<lparr>write_json := (\<lambda>platform_name save_data. False)\<rparr>)\<rparr>"

text \<open>
  The same run, but with a storage whose \<^verbatim>\<open>append_used_article_links\<close> raises on its
  first call and returns on its second.
\<close>

definition raising_append_env :: env where
  "raising_append_env =
     scenario_env\<lparr>append_used_article_links :=
       (\<lambda>place links. if place = 0 then Some (Raised ''ledger is locked'') else None)\<rparr>"

section \<open>Observations on a run\<close>



text \<open>
  The invariant of the attempt counters: every recorded count and every value assigned to
  \<^verbatim>\<open>platform_state["attempts"]\<close> so far is at most \<^verbatim>\<open>max_regen_attempts + 1\<close>.
\<close>

definition attempts_ok :: "env \<Rightarrow> run_state \<Rightarrow> bool" where
  "attempts_ok env s \<longleftrightarrow>
     (\<forall>p. int (attempts (platform_states s p)) \<le> max_regen_attempts env + 1)
     \<and> (\<forall>p n. EvAttempt p n \<in> set (events s) \<longrightarrow> int n \<le> max_regen_attempts env + 1)"


section \<open>Dictionaries\<close>

lemma py_get_dict [simp]: "py_get (PDict d) k dflt = Inr (dict_get d k dflt)"
  by (simp add: py_get_def)

lemma bind_err_simps [simp]:
  "bind_err (Inr v) f = f v"
  "bind_err (Inl e) f = Inl e"
  by (simp_all add: bind_err_def)

lemma dict_get_Some: "map_of d k = Some v \<Longrightarrow> dict_get d k dflt = v"
  by (simp add: dict_get_def)



lemma map_of_dict_setitem: "map_of (dict_setitem k v d) = (map_of d)(k \<mapsto> v)"
  by (induction d) (auto simp: fun_eq_iff)

lemma map_of_setdefault:
  "map_of (setdefault k v d) k' =
     (if k' = k then (case map_of d k of Some w \<Rightarrow> Some w | None \<Rightarrow> Some v) else map_of d k')"
  by (auto simp: setdefault_def dict_contains_def map_of_dict_setitem)

text \<open>The definitions that evaluate a run on a concrete scenario.\<close>

lemmas model_defs =
  dict_get_def dict_contains_def setdefault_def
  fill_defaults_def merge_content_def generate_content_def component_get_def
  plan_regeneration_def review_content_def skipped_review_def ai_component_review_def
  ai_review_components_def human_verdict_def review_try_def run_review_step_def
  run_generation_step_def emit_def update_platform_def set_final_def generation_failed_def
  attempt_body_def attempt_range_def img_size_def save_approved_def
  article_value_def startswith_def newline_def process_article_def news_ai_review_def
  news_try_def run_news_step_def initial_platform_state_def initial_run_state_def
  platforms_def save_used_links_def run_try_def run_def Let_def upt_rec
  file_storage_save_def file_storage_append_def

lemmas scenario_defs =
  sample_article_def sample_post_def component_verdict_def console_answer_def scenario_env_def
  failing_generation_env_def partial_reviewer_env_def rss_article_def rss_only_env_def
  working_files_def unwritable_env_def raising_append_env_def

section \<open>Merging generated content\<close>

text \<open>
  C6. Regenerating everything merges nothing: with \<^verbatim>\<open>regenerate_component == 'all'\<close>
  the merge returns the content it is given, whatever the kept text and the kept image
  prompt are, and \<^verbatim>\<open>generate_content\<close> returns the parsed reply with its defaults
  filled in.
\<close>

theorem merge_all_identity:
  "merge_content c ''all'' kept_text kept_image_prompt = c
   \<and> generate_content (Reply (PDict d)) ''all'' kept_text kept_image_prompt
       = PDict (fill_defaults d)"
  by (simp add: merge_content_def generate_content_def)

text \<open>
  C10. A kept component replaces the fresh one only when the kept value is true in
  Python's sense. When the text is regenerated and the kept image prompt is \<^verbatim>\<open>None\<close>
  or the empty string (or any other false value), the merge returns the fresh content
  unchanged, image prompt included; likewise for a regenerated image prompt and an empty
  kept text. A true kept value is written over the fresh component.
\<close>

theorem merge_kept_empty:
  "(\<not> truthy kept_image_prompt \<longrightarrow> merge_content c ''text'' kept_text kept_image_prompt = c)
   \<and> (\<not> truthy kept_text \<longrightarrow> merge_content c ''image_prompt'' kept_text kept_image_prompt = c)
   \<and> (truthy kept_image_prompt \<longrightarrow>
        merge_content c ''text'' kept_text kept_image_prompt
          = dict_setitem ''image_prompt'' kept_image_prompt c)
   \<and> (truthy kept_text \<longrightarrow>
        merge_content c ''image_prompt'' kept_text kept_image_prompt
          = dict_setitem ''post_text'' kept_text c)
   \<and> merge_content c ''text'' kept_text PNone = c
   \<and> merge_content c ''text'' kept_text (PStr []) = c
   \<and> merge_content c ''image_prompt'' PNone kept_image_prompt = c
   \<and> merge_content c ''image_prompt'' (PStr []) kept_image_prompt = c"
  by (simp add: merge_content_def)

text \<open>
  The text of a post is regenerated while the kept image prompt is the empty string: the
  fresh image prompt stays.
\<close>

theorem merge_kept_empty_witness:
  "\<not> truthy (PStr [])
   \<and> merge_content sample_post ''text'' PNone (PStr []) = sample_post
   \<and> map_of (merge_content sample_post ''text'' PNone (PStr [])) ''image_prompt''
       = Some (PStr ''A market stall'')"
proof -
  have "\<not> truthy (PStr [])" by simp
  moreover from merge_kept_empty[of "PStr []" sample_post PNone] this
  have "merge_content sample_post ''text'' PNone (PStr []) = sample_post" by blast
  ultimately show ?thesis by (simp add: sample_post_def)
qed

section \<open>Filling defaults\<close>

text \<open>
  C8, as the code has it. After the default-filling step a parsed JSON object has all
  three keys. A key that was present keeps its value; a missing \<^verbatim>\<open>post_text\<close> or
  \<^verbatim>\<open>image_prompt\<close> becomes \<^verbatim>\<open>None\<close> and a missing \<^verbatim>\<open>hashtags\<close> becomes the
  empty list.
\<close>

theorem fill_defaults_all_keys:
  "dict_contains ''post_text'' (fill_defaults d)
   \<and> dict_contains ''image_prompt'' (fill_defaults d)
   \<and> dict_contains ''hashtags'' (fill_defaults d)
   \<and> map_of (fill_defaults d) ''post_text''
       = Some (case map_of d ''post_text'' of Some v \<Rightarrow> v | None \<Rightarrow> PNone)
   \<and> map_of (fill_defaults d) ''image_prompt''
       = Some (case map_of d ''image_prompt'' of Some v \<Rightarrow> v | None \<Rightarrow> PNone)
   \<and> map_of (fill_defaults d) ''hashtags''
       = Some (case map_of d ''hashtags'' of Some v \<Rightarrow> v | None \<Rightarrow> PList [])"
  by (auto simp: fill_defaults_def dict_contains_def map_of_setdefault split: option.splits)

text \<open>
  C8 as stated fails. The model answers with the empty JSON object: the placeholders of
  \<^verbatim>\<open>post_text\<close> and \<^verbatim>\<open>image_prompt\<close> are \<^verbatim>\<open>None\<close>. The model answers with
  hashtags only: the hashtags stay as they are, they do not become the empty list.
\<close>

theorem fill_defaults_null_placeholders:
  "generate_content (Reply (PDict [])) ''all'' PNone PNone
     = PDict [(''post_text'', PNone), (''image_prompt'', PNone), (''hashtags'', PList [])]
   \<and> generate_content (Reply (PDict [(''hashtags'', PList [PStr ''#shop''])])) ''all'' PNone PNone
     = PDict [(''hashtags'', PList [PStr ''#shop'']), (''post_text'', PNone),
              (''image_prompt'', PNone)]"
  by (simp add: generate_content_def merge_content_def fill_defaults_def setdefault_def
        dict_contains_def)

section \<open>One pass of the attempt loop\<close>

lemma generate_content_cases:
  "generate_content reply target kt ki = PNone
   \<or> (\<exists>c. generate_content reply target kt ki = PDict c)"
  by (simp add: generate_content_def split: llm_reply.splits pyval.splits)

text \<open>
  A pass that goes on to the next attempt either recorded the generation failure or
  reviewed a non-empty content dictionary.
\<close>

lemma attempt_body_Continue:
  assumes "attempt_body env platform a s = (Continue, s')"
  shows "review_outcome (platform_states s' platform) = generation_failed
     \<or> (\<exists>c. c \<noteq> [] \<and> content (platform_states s' platform) = PDict c
            \<and> review_outcome (platform_states s' platform)
                = run_review_step env (PDict c) platform a)"
proof -
  obtain pl where pl: "plan_regeneration a
      (review_outcome (platform_states s platform)) (content (platform_states s platform)) = Inr pl"
    using assms
    by (auto simp: attempt_body_def Let_def emit_def update_platform_def split: sum.splits)
  let ?cur = "run_generation_step env platform a pl"
  show ?thesis
  proof (cases "truthy ?cur")
    case False
    with assms pl show ?thesis
      by (auto simp: attempt_body_def Let_def emit_def update_platform_def split: if_splits)
  next
    case True
    then obtain c where c: "?cur = PDict c" "c \<noteq> []"
      using generate_content_cases[of "generation_model env platform a pl"
          "regenerate_component pl" "approved_text_for_regen pl"
          "approved_image_prompt_for_regen pl"]
      by (auto simp: run_generation_step_def)
    with assms pl True show ?thesis
      by (auto simp: attempt_body_def Let_def emit_def update_platform_def set_final_def
               split: if_splits sum.splits)
  qed
qed

text \<open>Every pass that gets a plan calls the generation step with it.\<close>

lemma attempt_body_events_plan:
  assumes "plan_regeneration a
      (review_outcome (platform_states s platform)) (content (platform_states s platform)) = Inr pl"
  shows "\<exists>rest. events (snd (attempt_body env platform a s))
           = events s @ EvAttempt platform (Suc a) # EvGenerate platform a pl # rest"
  using assms
  by (auto simp: attempt_body_def Let_def emit_def update_platform_def set_final_def
           split: if_splits sum.splits)

lemma attempt_body_generation_failed:
  assumes "plan_regeneration a (review_outcome (platform_states s platform))
             (content (platform_states s platform)) = Inr pl"
    and "\<not> truthy (run_generation_step env platform a pl)"
  shows "attempt_body env platform a s =
     (if int a \<ge> max_regen_attempts env then Break else Continue,
      s\<lparr>platform_states := (platform_states s)(platform :=
           (platform_states s platform)
             \<lparr>attempts := a + 1,
              content := run_generation_step env platform a pl,
              review_outcome := generation_failed\<rparr>),
        events := events s @ [EvAttempt platform (a + 1), EvGenerate platform a pl]\<rparr>)"
  using assms
  by (simp add: attempt_body_def Let_def emit_def update_platform_def)

lemma plan_after_generation_failed:
  "plan_regeneration (Suc a) generation_failed c =
     Inr \<lparr>regenerate_component = ''all'',
          approved_text_for_regen = PNone,
          approved_image_prompt_for_regen = PNone,
          text_feedback_for_regen = PNone,
          image_prompt_feedback_for_regen = PNone\<rparr>"
  by (simp add: plan_regeneration_def generation_failed_def component_get_def dict_get_def)

text \<open>What one pass changes: the events it adds and the fields it leaves alone.\<close>

lemma attempt_body_effect:
  "\<exists>r. events (snd (attempt_body env p b s)) = events s @ r
     \<and> (\<forall>e\<in>set r. e = EvAttempt p (Suc b) \<or> (\<exists>pl. e = EvGenerate p b pl)
                      \<or> (\<exists>c. e = EvReview p b c))"
  by (auto simp: attempt_body_def Let_def emit_def update_platform_def set_final_def
           split: if_splits sum.splits)

lemma attempt_body_frame:
  "links_from_approved_news (snd (attempt_body env p b s)) = links_from_approved_news s"
  "any_post_saved (snd (attempt_body env p b s)) = any_post_saved s"
  "q \<noteq> p \<Longrightarrow> platform_states (snd (attempt_body env p b s)) q = platform_states s q"
  "attempts (platform_states (snd (attempt_body env p b s)) p) = Suc b"
  by (auto simp: attempt_body_def Let_def emit_def update_platform_def set_final_def
           split: if_splits sum.splits)

section \<open>Planning a regeneration\<close>

text \<open>
  C1. Attempt \<open>a\<close> of a platform did not end the loop, and the verdict it recorded is
  rejected with a verdict for each of the two components. Then the content it recorded is
  a dictionary, and if the text was approved and the image prompt rejected, the plan of
  attempt \<open>a + 1\<close> regenerates the image prompt only, keeps the text of the previous
  content, forwards the image prompt's feedback and no text feedback, and the generation
  step of attempt \<open>a + 1\<close> is called with exactly this plan. Symmetrically when the image
  prompt was approved and the text rejected.
\<close>

theorem targeted_regeneration_plan:
  assumes "attempt_body env platform a s = (Continue, s')"
    and "review_outcome (platform_states s' platform) = PDict rv"
    and "map_of rv ''status'' = Some (PStr ''rejected'')"
    and "map_of rv ''feedback'' = Some (PDict fb)"
    and "map_of fb ''text'' = Some (PDict tv)"
    and "map_of fb ''image_prompt'' = Some (PDict iv)"
  shows "\<exists>c. content (platform_states s' platform) = PDict c \<and>
     (truthy (dict_get tv ''approved'' (PBool False))
        \<and> \<not> truthy (dict_get iv ''approved'' (PBool False)) \<longrightarrow>
      plan_regeneration (Suc a) (PDict rv) (PDict c) =
        Inr \<lparr>regenerate_component = ''image_prompt'',
             approved_text_for_regen = dict_get c ''post_text'' PNone,
             approved_image_prompt_for_regen = PNone,
             text_feedback_for_regen = PNone,
             image_prompt_feedback_for_regen = dict_get iv ''feedback'' PNone\<rparr>
      \<and> (\<exists>rest. events (snd (attempt_body env platform (Suc a) s')) =
             events s' @ EvAttempt platform (Suc (Suc a))
               # EvGenerate platform (Suc a)
                   \<lparr>regenerate_component = ''image_prompt'',
                    approved_text_for_regen = dict_get c ''post_text'' PNone,
                    approved_image_prompt_for_regen = PNone,
                    text_feedback_for_regen = PNone,
                    image_prompt_feedback_for_regen = dict_get iv ''feedback'' PNone\<rparr>
               # rest))
   \<and> (\<not> truthy (dict_get tv ''approved'' (PBool False))
        \<and> truthy (dict_get iv ''approved'' (PBool False)) \<longrightarrow>
      plan_regeneration (Suc a) (PDict rv) (PDict c) =
        Inr \<lparr>regenerate_component = ''text'',
             approved_text_for_regen = PNone,
             approved_image_prompt_for_regen = dict_get c ''image_prompt'' PNone,
             text_feedback_for_regen = dict_get tv ''feedback'' PNone,
             image_prompt_feedback_for_regen = PNone\<rparr>
      \<and> (\<exists>rest. events (snd (attempt_body env platform (Suc a) s')) =
             events s' @ EvAttempt platform (Suc (Suc a))
               # EvGenerate platform (Suc a)
                   \<lparr>regenerate_component = ''text'',
                    approved_text_for_regen = PNone,
                    approved_image_prompt_for_regen = dict_get c ''image_prompt'' PNone,
                    text_feedback_for_regen = dict_get tv ''feedback'' PNone,
                    image_prompt_feedback_for_regen = PNone\<rparr>
               # rest))"
proof -
  have "review_outcome (platform_states s' platform) \<noteq> generation_failed"
    using assms(2-5) by (auto simp: generation_failed_def)
  then obtain c where c: "c \<noteq> []" "content (platform_states s' platform) = PDict c"
    using attempt_body_Continue[OF assms(1)] by auto
  have rv: "rv \<noteq> []" using assms(3) by auto
  have p1: "truthy (dict_get tv ''approved'' (PBool False))
        \<and> \<not> truthy (dict_get iv ''approved'' (PBool False)) \<Longrightarrow>
      plan_regeneration (Suc a) (PDict rv) (PDict c) =
        Inr \<lparr>regenerate_component = ''image_prompt'',
             approved_text_for_regen = dict_get c ''post_text'' PNone,
             approved_image_prompt_for_regen = PNone,
             text_feedback_for_regen = PNone,
             image_prompt_feedback_for_regen = dict_get iv ''feedback'' PNone\<rparr>"
    using assms(3-6) c(1) rv
    by (simp add: plan_regeneration_def component_get_def dict_get_Some)
  have p2: "\<not> truthy (dict_get tv ''approved'' (PBool False))
        \<and> truthy (dict_get iv ''approved'' (PBool False)) \<Longrightarrow>
      plan_regeneration (Suc a) (PDict rv) (PDict c) =
        Inr \<lparr>regenerate_component = ''text'',
             approved_text_for_regen = PNone,
             approved_image_prompt_for_regen = dict_get c ''image_prompt'' PNone,
             text_feedback_for_regen = dict_get tv ''feedback'' PNone,
             image_prompt_feedback_for_regen = PNone\<rparr>"
    using assms(3-6) c(1) rv
    by (simp add: plan_regeneration_def component_get_def dict_get_Some)
  show ?thesis
    using c(2) p1 p2 attempt_body_events_plan[of "Suc a" s' platform _ env] assms(2)
    by (intro exI[of _ c]) simp
qed

text \<open>
  The scenario of the specification: the first attempt for Instagram is rejected for its
  image prompt only, with the feedback "too generic". The plan of the second attempt
  targets the image prompt, keeps the first attempt's text and forwards that feedback.
\<close>

theorem targeted_regeneration_plan_witness:
  "fst (attempt_body scenario_env ''Instagram'' 0 initial_run_state) = Continue
   \<and> plan_regeneration 1
        (review_outcome
           (platform_states (snd (attempt_body scenario_env ''Instagram'' 0 initial_run_state))
              ''Instagram''))
        (content
           (platform_states (snd (attempt_body scenario_env ''Instagram'' 0 initial_run_state))
              ''Instagram''))
      = Inr \<lparr>regenerate_component = ''image_prompt'',
             approved_text_for_regen = PStr ''Sell more online'',
             approved_image_prompt_for_regen = PNone,
             text_feedback_for_regen = PNone,
             image_prompt_feedback_for_regen = PStr ''too generic''\<rparr>"
proof -
  let ?s' = "snd (attempt_body scenario_env ''Instagram'' 0 initial_run_state)"
  let ?tv = "[(''approved'', PBool True), (''feedback'', PStr ''Human approved.'')]"
  let ?iv = "[(''approved'', PBool False), (''feedback'', PStr ''too generic'')]"
  let ?fb = "[(''text'', PDict ?tv), (''image_prompt'', PDict ?iv)]"
  let ?rv = "[(''status'', PStr ''rejected''), (''feedback'', PDict ?fb)]"
  have fl: "fst (attempt_body scenario_env ''Instagram'' 0 initial_run_state) = Continue"
    by (simp add: model_defs scenario_defs)
  then have b: "attempt_body scenario_env ''Instagram'' 0 initial_run_state = (Continue, ?s')"
    by (simp add: prod_eq_iff)
  have ro: "review_outcome (platform_states ?s' ''Instagram'') = PDict ?rv"
    by (simp add: model_defs scenario_defs)
  have co: "content (platform_states ?s' ''Instagram'') = PDict sample_post"
    by (simp add: model_defs scenario_defs)
  from targeted_regeneration_plan[OF b ro, of ?fb ?tv ?iv]
  obtain c where c: "content (platform_states ?s' ''Instagram'') = PDict c"
    and pl: "plan_regeneration (Suc 0) (PDict ?rv) (PDict c) =
        Inr \<lparr>regenerate_component = ''image_prompt'',
             approved_text_for_regen = dict_get c ''post_text'' PNone,
             approved_image_prompt_for_regen = PNone,
             text_feedback_for_regen = PNone,
             image_prompt_feedback_for_regen = dict_get ?iv ''feedback'' PNone\<rparr>"
    by (auto simp: dict_get_def)
  from c co have "c = sample_post" by simp
  with pl ro co fl show ?thesis
    by (simp add: dict_get_def sample_post_def)
qed




section \<open>Human review of a post\<close>

text \<open>
  C7, as the code has it. The content is not empty, the AI sub-reviews returned, human
  review is called for, and the reviewer answers with a dictionary whose feedback is a
  dictionary (or absent). Then the result of the review step is built from the human
  answer alone: the AI verdicts do not occur in it. Its status is the human's overall
  decision, and a component the human feedback does not mention gets the verdict
  "feedback N/A" whose \<^verbatim>\<open>approved\<close> flag is that overall decision: approved if the
  human approved the post, rejected if the human rejected it.
\<close>

theorem human_review_supersedes:
  assumes "truthy platform_content"
    and "ai_review_components env platform_content platform attempt = Inr (component_reviews, ai_ok)"
    and "\<not> ai_ok \<or> human_review_required_post env"
    and "request_review env (Some platform) attempt ''full_post'' platform_content component_reviews
           = Inr (PDict hr)"
    and "dict_get hr ''feedback'' (PDict []) = PDict hf"
  shows "run_review_step env platform_content platform attempt =
     PDict [(''status'',
               PStr (if truthy (dict_get hr ''approved'' (PBool False))
                     then ''approved'' else ''rejected'')),
            (''feedback'',
               PDict [(''text'',
                         dict_get hf ''text''
                           (PDict [(''approved'',
                                      PBool (truthy (dict_get hr ''approved'' (PBool False)))),
                                   (''feedback'', PStr ''N/A'')])),
                      (''image_prompt'',
                         dict_get hf ''image_prompt''
                           (PDict [(''approved'',
                                      PBool (truthy (dict_get hr ''approved'' (PBool False)))),
                                   (''feedback'', PStr ''N/A'')]))])]"
  using assms
  by (auto simp: run_review_step_def review_try_def human_verdict_def Let_def)

text \<open>
  In the scenario the AI approves both components of the first Instagram post and the
  human, asked because human review is required, rejects the image prompt: the result is
  the human's verdict.
\<close>

theorem human_review_supersedes_witness:
  "truthy (PDict sample_post)
   \<and> human_review_required_post scenario_env
   \<and> run_review_step scenario_env (PDict sample_post) ''Instagram'' 0 =
       PDict [(''status'', PStr ''rejected''),
              (''feedback'',
                 PDict [(''text'', component_verdict True ''Human approved.''),
                        (''image_prompt'', component_verdict False ''too generic'')])]"
proof -
  let ?cr = "PDict [(''text'', component_verdict True ''Meets criteria.''),
                    (''image_prompt'', component_verdict True ''Meets criteria.'')]"
  let ?hf = "[(''text'', component_verdict True ''Human approved.''),
              (''image_prompt'', component_verdict False ''too generic'')]"
  let ?hr = "[(''approved'', PBool False), (''feedback'', PDict ?hf)]"
  have h1: "truthy (PDict sample_post)" by (simp add: sample_post_def)
  have h2: "ai_review_components scenario_env (PDict sample_post) ''Instagram'' 0 = Inr (?cr, True)"
    by (simp add: model_defs scenario_defs)
  have h3: "\<not> True \<or> human_review_required_post scenario_env"
    by (simp add: scenario_env_def)
  have h4: "request_review scenario_env (Some ''Instagram'') 0 ''full_post'' (PDict sample_post) ?cr
              = Inr (PDict ?hr)"
    by (simp add: scenario_defs)
  have h5: "dict_get ?hr ''feedback'' (PDict []) = PDict ?hf"
    by (simp add: dict_get_def)
  from human_review_supersedes[OF h1 h2 h3 h4 h5] h1 h3 show ?thesis
    by (simp add: dict_get_def)
qed

text \<open>
  C7 as stated fails. The reviewer rejects the post and reports on the text only. The image
  prompt, which the answer does not mention, is not defaulted to an approved verdict: its
  verdict is rejected.
\<close>

theorem uncovered_component_follows_rejection:
  "run_review_step partial_reviewer_env (PDict sample_post) ''Instagram'' 0 =
     PDict [(''status'', PStr ''rejected''),
            (''feedback'',
               PDict [(''text'', PDict [(''approved'', PBool False), (''feedback'', PStr ''Too long'')]),
                      (''image_prompt'',
                         PDict [(''approved'', PBool False), (''feedback'', PStr ''N/A'')])])]"
  by (simp add: model_defs scenario_defs)

section \<open>The news step\<close>

text \<open>
  When the news step ends rejected, \<^verbatim>\<open>run\<close> returns before any platform work: it
  calls nothing, so no link reaches the ledger.
\<close>

lemma rejected_news_commits_nothing:
  "status (run_news_step env (load_used_article_links env)) = ''rejected''
   \<Longrightarrow> events (run env) = []"
  by (simp add: run_def run_try_def Let_def initial_run_state_def)

text \<open>
  On every rejected path but one the entry \<^verbatim>\<open>fetched_articles\<close> of the result is the
  empty list. The exception is the return for "all fetched articles were skipped", where
  it holds the fetched articles.
\<close>

lemma rejected_news_links:
  assumes "status (run_news_step env used_links) = ''rejected''"
  shows "fetched_articles (run_news_step env used_links) = PList []
     \<or> (\<exists>fetched_data. news_fetcher_func env used_links = FetchArticles fetched_data
           \<and> fetched_data \<noteq> []
           \<and> fst (process_articles env 0 fetched_data ([], 0, [])) = []
           \<and> fetched_articles (run_news_step env used_links)
               = PList (map article_value fetched_data))"
proof (cases "news_try env used_links")
  case (Inl er)
  then show ?thesis by (cases er) (simp add: run_news_step_def)
next
  case (Inr r)
  with assms have "status r = ''rejected''" by (simp add: run_news_step_def)
  with Inr have "fetched_articles r = PList []
     \<or> (\<exists>fetched_data. news_fetcher_func env used_links = FetchArticles fetched_data
           \<and> fetched_data \<noteq> []
           \<and> fst (process_articles env 0 fetched_data ([], 0, [])) = []
           \<and> fetched_articles r = PList (map article_value fetched_data))"
    by (auto simp: news_try_def Let_def
             split: fetch_result.splits if_splits prod.splits sum.splits)
  with Inr show ?thesis by (simp add: run_news_step_def)
qed

text \<open>
  C2. The fetcher returns one article whose content is its bracketed RSS fallback. The
  news step skips it as a placeholder and returns the status \<^verbatim>\<open>rejected\<close>, but the
  entry \<^verbatim>\<open>fetched_articles\<close> of its result, the one \<^verbatim>\<open>run\<close> reads the consumed links
  from, is not empty: it still holds the fetched article with its link. The run itself
  stops at the rejected status and calls nothing.
\<close>

theorem skipped_news_keeps_articles:
  "status (run_news_step rss_only_env (load_used_article_links rss_only_env)) = ''rejected''
   \<and> fetched_articles (run_news_step rss_only_env (load_used_article_links rss_only_env))
       = PList [PDict [(''title'', PStr ''Shops go online''),
                       (''link'', PStr ''https://news.example/a''),
                       (''date'', PStr ''Mon, 01 Jan 2024''),
                       (''content'', PStr ''[Using RSS Summary]: Small shops are moving online.'')]]
   \<and> events (run rss_only_env) = []"
  by (simp add: model_defs scenario_defs)

section \<open>The attempt loop\<close>

lemma attempt_loop_step:
  "snd (attempt_loop env p (b # bs) s) = snd (attempt_body env p b s)
   \<or> snd (attempt_loop env p (b # bs) s) = snd (attempt_loop env p bs (snd (attempt_body env p b s)))"
  by (cases "attempt_body env p b s") (auto split: flow.splits)

lemma attempt_loop_effect:
  "\<exists>r. events (snd (attempt_loop env p bs s)) = events s @ r
     \<and> (\<forall>e\<in>set r. \<exists>b\<in>set bs. e = EvAttempt p (Suc b) \<or> (\<exists>pl. e = EvGenerate p b pl)
                      \<or> (\<exists>c. e = EvReview p b c))"
proof (induction bs arbitrary: s)
  case Nil
  then show ?case by simp
next
  case (Cons b bs)
  let ?s1 = "snd (attempt_body env p b s)"
  obtain r1 where r1: "events ?s1 = events s @ r1"
    "\<forall>e\<in>set r1. e = EvAttempt p (Suc b) \<or> (\<exists>pl. e = EvGenerate p b pl) \<or> (\<exists>c. e = EvReview p b c)"
    using attempt_body_effect[of env p b s] by blast
  obtain r2 where r2: "events (snd (attempt_loop env p bs ?s1)) = events ?s1 @ r2"
    "\<forall>e\<in>set r2. \<exists>b\<in>set bs. e = EvAttempt p (Suc b) \<or> (\<exists>pl. e = EvGenerate p b pl)
                      \<or> (\<exists>c. e = EvReview p b c)"
    using Cons.IH[of ?s1] by blast
  from attempt_loop_step[of env p b bs s] show ?case
  proof
    assume "snd (attempt_loop env p (b # bs) s) = ?s1"
    with r1 show ?thesis by (intro exI[of _ r1]) auto
  next
    assume "snd (attempt_loop env p (b # bs) s) = snd (attempt_loop env p bs ?s1)"
    with r1 r2 show ?thesis by (intro exI[of _ "r1 @ r2"]) auto
  qed
qed

lemma attempt_loop_frame:
  "links_from_approved_news (snd (attempt_loop env p bs s)) = links_from_approved_news s
   \<and> any_post_saved (snd (attempt_loop env p bs s)) = any_post_saved s
   \<and> (\<forall>q. q \<noteq> p \<longrightarrow> platform_states (snd (attempt_loop env p bs s)) q = platform_states s q)
   \<and> (attempts (platform_states (snd (attempt_loop env p bs s)) p) = attempts (platform_states s p)
        \<or> (\<exists>b\<in>set bs. attempts (platform_states (snd (attempt_loop env p bs s)) p) = Suc b))"
proof (induction bs arbitrary: s)
  case Nil
  then show ?case by simp
next
  case (Cons b bs)
  let ?s1 = "snd (attempt_body env p b s)"
  from attempt_loop_step[of env p b bs s] show ?case
  proof
    assume "snd (attempt_loop env p (b # bs) s) = ?s1"
    then show ?thesis by (simp add: attempt_body_frame)
  next
    assume eq: "snd (attempt_loop env p (b # bs) s) = snd (attempt_loop env p bs ?s1)"
    show ?thesis
      using Cons.IH[of ?s1] unfolding eq
      by (auto simp: attempt_body_frame)
  qed
qed

text \<open>
  C5. On an attempt \<open>a\<close> within the bound, the generation step is called with some plan
  and returns no content. Then this pass of the loop records the rejected verdict
  "Generation failed", sets the attempt count to \<open>a + 1\<close>, and adds exactly two events,
  the count and the generation call: the review step is not called. The pass ends the
  loop if \<open>a\<close> has reached \<^verbatim>\<open>max_regen_attempts\<close> and goes on otherwise. On the last
  attempt the rest of the loop adds nothing more; before that, the loop goes on with
  attempt \<open>a + 1\<close>, whose generation call regenerates everything, and nothing later in
  the loop reviews attempt \<open>a\<close>.
\<close>

theorem generation_failure_retry:
  assumes "plan_regeneration a (review_outcome (platform_states s platform))
             (content (platform_states s platform)) = Inr pl"
    and "\<not> truthy (run_generation_step env platform a pl)"
    and "int a \<le> max_regen_attempts env"
  shows "attempt_body env platform a s =
     (if int a \<ge> max_regen_attempts env then Break else Continue,
      s\<lparr>platform_states := (platform_states s)(platform :=
           (platform_states s platform)
             \<lparr>attempts := a + 1,
              content := run_generation_step env platform a pl,
              review_outcome := generation_failed\<rparr>),
        events := events s @ [EvAttempt platform (a + 1), EvGenerate platform a pl]\<rparr>)
   \<and> (int a = max_regen_attempts env \<longrightarrow>
        events (snd (attempt_loop env platform [a ..< nat (max_regen_attempts env + 1)] s))
          = events s @ [EvAttempt platform (a + 1), EvGenerate platform a pl])
   \<and> (int a < max_regen_attempts env \<longrightarrow>
        (\<exists>rest.
          events (snd (attempt_loop env platform [a ..< nat (max_regen_attempts env + 1)] s))
            = events s @ EvAttempt platform (a + 1) # EvGenerate platform a pl
                # EvAttempt platform (a + 2)
                # EvGenerate platform (a + 1)
                    \<lparr>regenerate_component = ''all'',
                     approved_text_for_regen = PNone,
                     approved_image_prompt_for_regen = PNone,
                     text_feedback_for_regen = PNone,
                     image_prompt_feedback_for_regen = PNone\<rparr>
                # rest
          \<and> (\<forall>c. EvReview platform a c \<notin> set rest)))"
proof (intro conjI impI)
  let ?s' = "s\<lparr>platform_states := (platform_states s)(platform :=
           (platform_states s platform)
             \<lparr>attempts := a + 1,
              content := run_generation_step env platform a pl,
              review_outcome := generation_failed\<rparr>),
        events := events s @ [EvAttempt platform (a + 1), EvGenerate platform a pl]\<rparr>"
  show body: "attempt_body env platform a s =
     (if int a \<ge> max_regen_attempts env then Break else Continue, ?s')"
    by (rule attempt_body_generation_failed[OF assms(1,2)])
  {
    assume last: "int a = max_regen_attempts env"
    then have "nat (max_regen_attempts env + 1) = Suc a"
      by linarith
    then have "[a ..< nat (max_regen_attempts env + 1)] = [a]"
      by simp
    with body last
    show "events (snd (attempt_loop env platform [a ..< nat (max_regen_attempts env + 1)] s))
          = events s @ [EvAttempt platform (a + 1), EvGenerate platform a pl]"
      by simp
  }
  {
    assume more: "int a < max_regen_attempts env"
    let ?later = "[Suc a ..< nat (max_regen_attempts env + 1)]"
    from more have "a < nat (max_regen_attempts env + 1)"
      and lt: "Suc a < nat (max_regen_attempts env + 1)"
      by linarith+
    then have rng: "[a ..< nat (max_regen_attempts env + 1)] = a # ?later"
      and later: "?later = Suc a # [Suc (Suc a) ..< nat (max_regen_attempts env + 1)]"
      by (simp_all add: upt_conv_Cons)
    let ?all = "\<lparr>regenerate_component = ''all'',
                     approved_text_for_regen = PNone,
                     approved_image_prompt_for_regen = PNone,
                     text_feedback_for_regen = PNone,
                     image_prompt_feedback_for_regen = PNone\<rparr>"
    have pl2: "plan_regeneration (Suc a) (review_outcome (platform_states ?s' platform))
             (content (platform_states ?s' platform)) = Inr ?all"
      by (simp add: plan_after_generation_failed)
    have loop: "attempt_loop env platform [a ..< nat (max_regen_attempts env + 1)] s
        = attempt_loop env platform ?later ?s'"
      using body more by (simp only: rng attempt_loop.simps) simp
    obtain r where r: "events (snd (attempt_loop env platform ?later ?s')) = events ?s' @ r"
      and idx: "\<forall>e\<in>set r. \<exists>b\<in>set ?later. e = EvAttempt platform (Suc b)
                  \<or> (\<exists>pl. e = EvGenerate platform b pl) \<or> (\<exists>c. e = EvReview platform b c)"
      using attempt_loop_effect[of env platform ?later ?s'] by blast
    obtain fl s2 where b2: "attempt_body env platform (Suc a) ?s' = (fl, s2)"
      by (cases "attempt_body env platform (Suc a) ?s'")
    from attempt_body_events_plan[OF pl2, of env] b2 obtain r1 where
      r1: "events s2 = events ?s' @ EvAttempt platform (Suc (Suc a))
             # EvGenerate platform (Suc a) ?all # r1"
      by auto
    obtain r2 where r2:
      "events (snd (attempt_loop env platform [Suc (Suc a) ..< nat (max_regen_attempts env + 1)] s2))
         = events s2 @ r2"
      using attempt_loop_effect by blast
    have "\<exists>r3. events (snd (attempt_loop env platform ?later ?s')) = events s2 @ r3"
      unfolding later using b2 r2 by (cases fl) auto
    then obtain r3 where r3:
      "events (snd (attempt_loop env platform ?later ?s')) = events s2 @ r3" by blast
    from r r1 r3 have req: "r = EvAttempt platform (Suc (Suc a))
             # EvGenerate platform (Suc a) ?all # (r1 @ r3)"
      by simp
    have "EvReview platform a c \<notin> set r" for c
    proof
      assume "EvReview platform a c \<in> set r"
      with idx obtain b where "b \<in> set ?later" "b = a" by auto
      then show False by simp
    qed
    then have "\<forall>c. EvReview platform a c \<notin> set (r1 @ r3)"
      unfolding req by simp
    with loop r3 r1
    show "\<exists>rest.
          events (snd (attempt_loop env platform [a ..< nat (max_regen_attempts env + 1)] s))
            = events s @ EvAttempt platform (a + 1) # EvGenerate platform a pl
                # EvAttempt platform (a + 2)
                # EvGenerate platform (a + 1) ?all
                # rest
          \<and> (\<forall>c. EvReview platform a c \<notin> set rest)"
      by (intro exI[of _ "r1 @ r3"]) simp
  }
qed

text \<open>
  The first generation call for Instagram returns nothing, with one regeneration allowed:
  the pass goes on, the verdict is the generation failure, and the loop's events show no
  review for attempt 0 and a second generation call.
\<close>

theorem generation_failure_retry_witness:
  "\<not> truthy (run_generation_step failing_generation_env ''Instagram'' 0
        \<lparr>regenerate_component = ''all'', approved_text_for_regen = PNone,
         approved_image_prompt_for_regen = PNone, text_feedback_for_regen = PNone,
         image_prompt_feedback_for_regen = PNone\<rparr>)
   \<and> fst (attempt_body failing_generation_env ''Instagram'' 0 initial_run_state) = Continue
   \<and> review_outcome
        (platform_states (snd (attempt_body failing_generation_env ''Instagram'' 0 initial_run_state))
           ''Instagram'') = generation_failed
   \<and> attempts
        (platform_states (snd (attempt_body failing_generation_env ''Instagram'' 0 initial_run_state))
           ''Instagram'') = 1
   \<and> events (snd (attempt_body failing_generation_env ''Instagram'' 0 initial_run_state))
       = [EvAttempt ''Instagram'' 1,
          EvGenerate ''Instagram'' 0
            \<lparr>regenerate_component = ''all'', approved_text_for_regen = PNone,
             approved_image_prompt_for_regen = PNone, text_feedback_for_regen = PNone,
             image_prompt_feedback_for_regen = PNone\<rparr>]"
proof -
  let ?all = "\<lparr>regenerate_component = ''all'', approved_text_for_regen = PNone,
         approved_image_prompt_for_regen = PNone, text_feedback_for_regen = PNone,
         image_prompt_feedback_for_regen = PNone\<rparr>"
  have h1: "plan_regeneration 0 (review_outcome (platform_states initial_run_state ''Instagram''))
              (content (platform_states initial_run_state ''Instagram'')) = Inr ?all"
    by (simp add: plan_regeneration_def)
  have h2: "\<not> truthy (run_generation_step failing_generation_env ''Instagram'' 0 ?all)"
    by (simp add: run_generation_step_def generate_content_def scenario_defs)
  have h3: "int 0 \<le> max_regen_attempts failing_generation_env"
    by (simp add: scenario_defs)
  have mx: "max_regen_attempts failing_generation_env = 1"
    by (simp add: scenario_defs)
  from generation_failure_retry[OF h1 h2 h3]
  have "attempt_body failing_generation_env ''Instagram'' 0 initial_run_state =
     (Continue,
      initial_run_state\<lparr>platform_states := (platform_states initial_run_state)(''Instagram'' :=
           (platform_states initial_run_state ''Instagram'')
             \<lparr>attempts := 0 + 1,
              content := run_generation_step failing_generation_env ''Instagram'' 0 ?all,
              review_outcome := generation_failed\<rparr>),
        events := events initial_run_state
                    @ [EvAttempt ''Instagram'' (0 + 1), EvGenerate ''Instagram'' 0 ?all]\<rparr>)"
    by (simp add: mx)
  with h2 show ?thesis
    by (simp add: initial_run_state_def)
qed

section \<open>The platform loop and the run\<close>

lemma save_approved_effect:
  "\<exists>r. events (snd (save_approved env p s)) = events s @ r
     \<and> (\<forall>e\<in>set r. (\<exists>pr. e = EvImage p pr) \<or> (\<exists>c u outcome. e = EvSave p c u outcome))
     \<and> (any_post_saved (snd (save_approved env p s)) \<longrightarrow>
          any_post_saved s
          \<or> (\<exists>c u written. EvSave p c u (Inr written) \<in> set r
                            \<and> save_content env p c u = Inr written))"
  by (auto simp: save_approved_def Let_def emit_def set_final_def
           split: if_splits sum.splits option.splits)

lemma save_approved_frame:
  "links_from_approved_news (snd (save_approved env p s)) = links_from_approved_news s"
  "platform_states (snd (save_approved env p s)) = platform_states s"
  by (auto simp: save_approved_def Let_def emit_def set_final_def
           split: if_splits sum.splits option.splits)

lemma platform_loop_step:
  "snd (platform_loop env (p # ps) s) = snd (attempt_loop env p (attempt_range env) s)
   \<or> snd (platform_loop env (p # ps) s)
        = snd (save_approved env p (snd (attempt_loop env p (attempt_range env) s)))
   \<or> snd (platform_loop env (p # ps) s)
        = snd (platform_loop env ps
                 (snd (save_approved env p (snd (attempt_loop env p (attempt_range env) s)))))"
  by (cases "attempt_loop env p (attempt_range env) s";
      cases "save_approved env p (snd (attempt_loop env p (attempt_range env) s))")
     (auto split: option.splits)



text \<open>
  A run ends in the initial state (news rejected or none), or after the platform loop
  with the final call for the used links, followed by the handler's call if that final call
  raised, or with the handler's call alone if the platform loop raised.
\<close>

lemma run_cases:
  "run env = initial_run_state
   \<or> (\<exists>s. s = snd (platform_loop env platforms
                (initial_run_state\<lparr>links_from_approved_news :=
                   fetched_articles (run_news_step env (load_used_article_links env))\<rparr>))
          \<and> ((fst (save_used_links env 0 s) = None \<and> run env = snd (save_used_links env 0 s))
              \<or> (fst (save_used_links env 0 s) \<noteq> None
                   \<and> run env = snd (save_used_links env 1 (snd (save_used_links env 0 s))))
              \<or> run env = snd (save_used_links env 1 s)))"
proof -
  let ?s0 = "initial_run_state\<lparr>links_from_approved_news :=
                   fetched_articles (run_news_step env (load_used_article_links env))\<rparr>"
  obtain ex s where pl: "platform_loop env platforms ?s0 = (ex, s)"
    by (cases "platform_loop env platforms ?s0")
  obtain ex0 s1 where su: "save_used_links env 0 s = (ex0, s1)"
    by (cases "save_used_links env 0 s")
  show ?thesis
    using pl su
    by (cases ex; cases ex0) (auto simp: run_def run_try_def Let_def)
qed

subsection \<open>The attempt counters\<close>

lemma in_attempt_range:
  "b \<in> set (attempt_range env) \<Longrightarrow> int (Suc b) \<le> max_regen_attempts env + 1"
  by (auto simp: attempt_range_def)

lemma attempts_ok_attempt_loop:
  assumes "attempts_ok env s"
  shows "attempts_ok env (snd (attempt_loop env p (attempt_range env) s))"
proof -
  let ?s' = "snd (attempt_loop env p (attempt_range env) s)"
  obtain r where r: "events ?s' = events s @ r"
    "\<forall>e\<in>set r. \<exists>b\<in>set (attempt_range env). e = EvAttempt p (Suc b) \<or> (\<exists>pl. e = EvGenerate p b pl)
                      \<or> (\<exists>c. e = EvReview p b c)"
    using attempt_loop_effect[of env p "attempt_range env" s] by blast
  have fr: "\<forall>q. q \<noteq> p \<longrightarrow> platform_states ?s' q = platform_states s q"
    "attempts (platform_states ?s' p) = attempts (platform_states s p)
        \<or> (\<exists>b\<in>set (attempt_range env). attempts (platform_states ?s' p) = Suc b)"
    using attempt_loop_frame[of env p "attempt_range env" s] by blast+
  have a: "int (attempts (platform_states ?s' q)) \<le> max_regen_attempts env + 1" for q
  proof (cases "q = p")
    case True
    with fr(2) assms in_attempt_range show ?thesis
      by (auto simp: attempts_ok_def)
  next
    case False
    with fr(1) assms show ?thesis by (auto simp: attempts_ok_def)
  qed
  have b: "int n \<le> max_regen_attempts env + 1" if "EvAttempt q n \<in> set (events ?s')" for q n
  proof -
    from that r(1) have "EvAttempt q n \<in> set (events s) \<or> EvAttempt q n \<in> set r" by auto
    then show ?thesis
    proof
      assume "EvAttempt q n \<in> set (events s)"
      with assms show ?thesis by (auto simp: attempts_ok_def)
    next
      assume "EvAttempt q n \<in> set r"
      with r(2) obtain b where "b \<in> set (attempt_range env)" "n = Suc b" by auto
      with in_attempt_range show ?thesis by auto
    qed
  qed
  from a b show ?thesis unfolding attempts_ok_def by blast
qed

lemma attempts_ok_save_approved:
  assumes "attempts_ok env s"
  shows "attempts_ok env (snd (save_approved env p s))"
proof -
  obtain r where r: "events (snd (save_approved env p s)) = events s @ r"
    "\<forall>e\<in>set r. (\<exists>pr. e = EvImage p pr) \<or> (\<exists>c u outcome. e = EvSave p c u outcome)"
    using save_approved_effect[of env p s] by blast
  have "EvAttempt q n \<notin> set r" for q n using r(2) by auto
  with assms r(1) show ?thesis
    by (auto simp: attempts_ok_def save_approved_frame)
qed

lemma attempts_ok_platform_loop:
  "attempts_ok env s \<Longrightarrow> attempts_ok env (snd (platform_loop env ps s))"
proof (induction ps arbitrary: s)
  case Nil
  then show ?case by simp
next
  case (Cons p ps)
  let ?s1 = "snd (attempt_loop env p (attempt_range env) s)"
  let ?s2 = "snd (save_approved env p ?s1)"
  have 1: "attempts_ok env ?s1" using Cons.prems by (rule attempts_ok_attempt_loop)
  then have 2: "attempts_ok env ?s2" by (rule attempts_ok_save_approved)
  then have 3: "attempts_ok env (snd (platform_loop env ps ?s2))" by (rule Cons.IH)
  from platform_loop_step[of env p ps s] 1 2 3 show ?case by auto
qed

lemma attempts_ok_save_used_links:
  "attempts_ok env s \<Longrightarrow> attempts_ok env (snd (save_used_links env place s))"
  by (auto simp: attempts_ok_def save_used_links_def Let_def emit_def)

lemma attempts_ok_initial:
  "0 \<le> max_regen_attempts env \<Longrightarrow>
     attempts_ok env (initial_run_state\<lparr>links_from_approved_news := l\<rparr>)"
  "0 \<le> max_regen_attempts env \<Longrightarrow> attempts_ok env initial_run_state"
  by (auto simp: attempts_ok_def initial_run_state_def initial_platform_state_def)

text \<open>
  C4. With \<^verbatim>\<open>max_regen_attempts\<close> at least 0, at the end of every run the attempt count
  of every platform is at most \<^verbatim>\<open>max_regen_attempts + 1\<close>, and so is every value the run
  ever assigned to a platform's count.
\<close>

theorem attempts_bounded:
  assumes "0 \<le> max_regen_attempts env"
  shows "int (attempts (platform_states (run env) platform)) \<le> max_regen_attempts env + 1
     \<and> (\<forall>n. EvAttempt platform n \<in> set (events (run env)) \<longrightarrow>
            int n \<le> max_regen_attempts env + 1)"
proof -
  have "attempts_ok env (run env)"
    using run_cases[of env] attempts_ok_initial[OF assms]
      attempts_ok_platform_loop attempts_ok_save_used_links
    by metis
  then show ?thesis unfolding attempts_ok_def by blast
qed

text \<open>
  In the scenario one regeneration is allowed and each platform needs it: the count of
  Instagram ends at 2, which is the bound.
\<close>

theorem attempts_bounded_witness:
  "0 \<le> max_regen_attempts scenario_env
   \<and> attempts (platform_states (run scenario_env) ''Instagram'') = 2
   \<and> int (attempts (platform_states (run scenario_env) ''Instagram''))
       \<le> max_regen_attempts scenario_env + 1"
proof -
  have h: "0 \<le> max_regen_attempts scenario_env"
    by (simp add: scenario_env_def)
  have "attempts (platform_states (run scenario_env) ''Instagram'') = 2"
    by (simp add: model_defs scenario_defs)
  with attempts_bounded[OF h, of "''Instagram''"] h show ?thesis
    by blast
qed

subsection \<open>The used links\<close>












end
